theory Spec2Isabelle
  imports Main "HOL-Library.Sublist"
begin

section \<open>Python values, strings and exceptions\<close>

text \<open>
  The script \<^verbatim>\<open>extractTranscriptsPython.py\<close> fetches the transcript of one video: it
  asks a proxy provider for a list of proxies, then tries the transcript library up to
  \<open>retry_count\<close> times, each time through a proxy drawn at random, and waits between the
  tries by the kind of error. Its two functions with decisions, \<open>fetch_webshare_proxies\<close>
  and \<open>extract_transcript\<close>, are modelled here with what they print and how long they
  sleep as a list of events next to the value returned.

  The script works on JSON-like Python values: the
  payload decoded from the proxy provider's answer and the dictionary it prints at the
  end. Floats (segment start and duration) are never computed with, only copied, so
  their type is the parameter \<open>'f\<close>. A dictionary is an association list with string keys.
  A string is the list of the characters of its text, and \<open>needle in hay\<close> on strings is
  contiguous containment, \<^const>\<open>sublist\<close>.
\<close>

datatype 'f pyval =
    PNone
  | PBool bool
  | PInt int
  | PFloat 'f
  | PStr string
  | PList "'f pyval list"
  | PDict "(string \<times> 'f pyval) list"

type_synonym 'f pydict = "(string \<times> 'f pyval) list"

text \<open>
  The exceptions that the modelled statements can raise. \<open>Raised\<close> stands for an
  exception of an external library (requests, the JSON decoder, the proxy configuration
  class) and carries its message.
\<close>

datatype py_exn = KeyError string | TypeError | AttributeError | Raised string

text \<open>\<open>sep.join(xs)\<close>.\<close>

fun join :: "string \<Rightarrow> string list \<Rightarrow> string" where
  "join sep [] = []"
| "join sep [x] = x"
| "join sep (x # y # ys) = x @ sep @ join sep (y # ys)"

text \<open>The decimal rendering of an integer, as an f-string produces it.\<close>

fun str_nat :: "nat \<Rightarrow> string" where
  "str_nat n =
     (if n < 10 then [''0123456789'' ! n]
      else str_nat (n div 10) @ [''0123456789'' ! (n mod 10)])"

declare str_nat.simps [simp del]

definition str_int :: "int \<Rightarrow> string" where
  "str_int i = (if i < 0 then CHR ''-'' # str_nat (nat (- i)) else str_nat (nat i))"

section \<open>The proxy list: \<open>fetch_webshare_proxies\<close>\<close>

text \<open>
  What the script writes to standard error, one constructor per \<open>print\<close> statement,
  carrying the values the message is formatted from (a random delay is left out).
\<close>

datatype log_line =
    NoApiKey
  | FetchingProxies string
  | WebshareApiError int string
  | FetchedProxies nat
  | FailedToFetch py_exn
  | FailedProxyConfig py_exn
  | WaitingBeforeRetry int int
  | UsingProxy string string
  | RateLimitWait nat int int
  | GeneralErrorWait int int string

text \<open>
  The answer of \<open>requests.get\<close>: its status code, its text, and what \<open>response.json()\<close>
  gives, a decoded value or the decoder's exception.
\<close>

record 'f response =
  status_code :: int
  response_text :: string
  response_json :: "py_exn + 'f pyval"

text \<open>A proxy is the dictionary with the four keys that the script builds.\<close>

record 'f proxy =
  proxy_address :: "'f pyval"
  port :: "'f pyval"
  username :: "'f pyval"
  password :: "'f pyval"

text \<open>\<open>v[k]\<close> for a string key: only a dictionary holding the key answers.\<close>

fun subscript :: "'f pyval \<Rightarrow> string \<Rightarrow> py_exn + 'f pyval" where
  "subscript (PDict kvs) k = (case map_of kvs k of None \<Rightarrow> Inl (KeyError k) | Some v \<Rightarrow> Inr v)"
| "subscript _ k = Inl TypeError"

text \<open>\<open>v.get(k, d)\<close>: only a dictionary has the method.\<close>

fun dict_get :: "'f pyval \<Rightarrow> string \<Rightarrow> 'f pyval \<Rightarrow> py_exn + 'f pyval" where
  "dict_get (PDict kvs) k d = Inr (case map_of kvs k of None \<Rightarrow> d | Some v \<Rightarrow> v)"
| "dict_get _ k d = Inl AttributeError"

text \<open>
  \<open>for x in v\<close>: a list gives its elements, a dictionary its keys, a string its
  characters; the other values are not iterable.
\<close>

fun py_iter :: "'f pyval \<Rightarrow> py_exn + 'f pyval list" where
  "py_iter (PList xs) = Inr xs"
| "py_iter (PDict kvs) = Inr (map (\<lambda>kv. PStr (fst kv)) kvs)"
| "py_iter (PStr s) = Inr (map (\<lambda>c. PStr [c]) s)"
| "py_iter _ = Inl TypeError"

text \<open>The loop of lines 53 to 60; the first failing subscript ends it.\<close>

fun collect_proxies :: "'f pyval list \<Rightarrow> 'f proxy list \<Rightarrow> py_exn + 'f proxy list" where
  "collect_proxies [] proxies = Inr proxies"
| "collect_proxies (proxy_data # rest) proxies =
     (case subscript proxy_data ''proxy_address'' of
        Inl e \<Rightarrow> Inl e
      | Inr a \<Rightarrow>
     (case subscript proxy_data ''port'' of
        Inl e \<Rightarrow> Inl e
      | Inr p \<Rightarrow>
     (case subscript proxy_data ''username'' of
        Inl e \<Rightarrow> Inl e
      | Inr u \<Rightarrow>
     (case subscript proxy_data ''password'' of
        Inl e \<Rightarrow> Inl e
      | Inr pw \<Rightarrow>
          collect_proxies rest
            (proxies @ [\<lparr>proxy_address = a, port = p, username = u, password = pw\<rparr>])))))"

text \<open>
  The body of the \<open>try\<close>: what was logged, and either the exception that left the body
  or the list returned. \<open>raise_for_status\<close> is only reached with status 200, where it
  does nothing.
\<close>

definition fetch_webshare_proxies_try ::
  "string \<Rightarrow> py_exn + 'f response \<Rightarrow> log_line list \<times> (py_exn + 'f proxy list)" where
  "fetch_webshare_proxies_try api_key get_result =
     (if api_key = [] then ([NoApiKey], Inr [])
      else
        (let log = [FetchingProxies (take 5 api_key)] in
         case get_result of
           Inl e \<Rightarrow> (log, Inl e)
         | Inr response \<Rightarrow>
             if status_code response \<noteq> 200
             then (log @ [WebshareApiError (status_code response) (response_text response)],
                   Inr [])
             else
               (case response_json response of
                  Inl e \<Rightarrow> (log, Inl e)
                | Inr data \<Rightarrow>
               (case dict_get data ''results'' (PList []) of
                  Inl e \<Rightarrow> (log, Inl e)
                | Inr results \<Rightarrow>
               (case py_iter results of
                  Inl e \<Rightarrow> (log, Inl e)
                | Inr items \<Rightarrow>
               (case collect_proxies items [] of
                  Inl e \<Rightarrow> (log, Inl e)
                | Inr proxies \<Rightarrow> (log @ [FetchedProxies (length proxies)], Inr proxies)))))))"

text \<open>The \<open>except Exception\<close> around it: log and return the empty list.\<close>

definition fetch_webshare_proxies ::
  "string \<Rightarrow> py_exn + 'f response \<Rightarrow> 'f proxy list \<times> log_line list" where
  "fetch_webshare_proxies api_key get_result =
     (case fetch_webshare_proxies_try api_key get_result of
        (log, Inl e) \<Rightarrow> ([], log @ [FailedToFetch e])
      | (log, Inr proxies) \<Rightarrow> (proxies, log))"

section \<open>The retry loop: \<open>extract_transcript\<close>\<close>

record 'f proxy_config =
  proxy_username :: "'f pyval"
  proxy_password :: "'f pyval"

text \<open>
  A transcript client: the headers of its session when it has one, and its proxy
  configuration when it has one.
\<close>

record 'f api_instance =
  http_client_headers :: "(string \<times> string) list option"
  api_proxy_config :: "'f proxy_config option"

record 'f snippet =
  snippet_text :: string
  snippet_start :: 'f
  snippet_duration :: 'f

text \<open>
  A sleep lasts a given number of seconds, or a time that \<open>random.uniform\<close> draws between
  two bounds.
\<close>

datatype duration = Seconds nat | Uniform nat nat

datatype 'f event =
    Stderr log_line
  | Sleep duration
  | ApiFetch "'f api_instance" string "string list"

text \<open>
  Everything outside the script that a run depends on: the environment variable, the
  answer of the proxy provider, the index \<open>random.choice\<close> draws at each attempt, the
  constructor of the library's proxy configuration, the outcome of \<open>ytt_api.fetch\<close> at
  each attempt (\<open>Inl\<close> carries \<open>str(e)\<close> of the exception raised), the text an
  f-string gives for a decoded value, and \<open>str.lower\<close>, the lower-casing of the Python
  runtime, which follows Unicode and is not defined here.

  Inside the \<open>try\<close> of the loop the fetch is the one call taken to raise: the random
  draws, the sleeps and the construction of the client return. The bounds of
  \<open>delay_range\<close> are natural numbers, \<open>(1, 3)\<close> by default, so the sleep before a retry
  is not negative.
\<close>

record 'f world =
  WEBSHARE_API_KEY :: string
  requests_get :: "py_exn + 'f response"
  random_choice :: "nat \<Rightarrow> nat"
  WebshareProxyConfig :: "'f pyval \<Rightarrow> 'f pyval \<Rightarrow> py_exn + 'f proxy_config"
  api_fetch :: "nat \<Rightarrow> string + 'f snippet list"
  format_value :: "'f pyval \<Rightarrow> string"
  str_lower :: "string \<Rightarrow> string"

text \<open>
  \<open>create_proxy_config\<close>; its argument is a four-key dictionary, which is never falsy,
  so the first \<open>return None\<close> does not apply.
\<close>

definition create_proxy_config ::
  "'f world \<Rightarrow> 'f proxy \<Rightarrow> 'f proxy_config option \<times> 'f event list" where
  "create_proxy_config w proxy_data =
     (case WebshareProxyConfig w (username proxy_data) (password proxy_data) of
        Inr proxy_config \<Rightarrow> (Some proxy_config, [])
      | Inl e \<Rightarrow> (None, [Stderr (FailedProxyConfig e)]))"

definition browser_headers :: "(string \<times> string) list" where
  "browser_headers =
     [(''User-Agent'', ''Mozilla/5.0 (Macintosh; Intel Mac OS X 10_15_7) AppleWebKit/537.36 (KHTML, like Gecko) Chrome/120.0.0.0 Safari/537.36''),
      (''Accept'', ''text/html,application/xhtml+xml,application/xml;q=0.9,image/webp,*/*;q=0.8''),
      (''Accept-Language'', ''en-US,en;q=0.9''),
      (''Accept-Encoding'', ''gzip, deflate''),
      (''DNT'', ''1''),
      (''Connection'', ''keep-alive''),
      (''Upgrade-Insecure-Requests'', ''1'')]"

definition create_api_instance :: "'f proxy_config option \<Rightarrow> bool \<Rightarrow> 'f api_instance" where
  "create_api_instance proxy_config use_session =
     (if use_session then
        (case proxy_config of
           Some c \<Rightarrow> \<lparr>http_client_headers = Some browser_headers, api_proxy_config = Some c\<rparr>
         | None \<Rightarrow> \<lparr>http_client_headers = Some browser_headers, api_proxy_config = None\<rparr>)
      else
        (case proxy_config of
           Some c \<Rightarrow> \<lparr>http_client_headers = None, api_proxy_config = Some c\<rparr>
         | None \<Rightarrow> \<lparr>http_client_headers = None, api_proxy_config = None\<rparr>))"

text \<open>Lines 119 to 122: the random delay before every attempt but the first.\<close>

definition retry_jitter :: "int \<Rightarrow> nat \<times> nat \<Rightarrow> nat \<Rightarrow> 'f event list" where
  "retry_jitter retry_count delay_range attempt =
     (if attempt > 0
      then [Stderr (WaitingBeforeRetry (int attempt + 1) retry_count),
            Sleep (Uniform (fst delay_range) (snd delay_range))]
      else [])"

text \<open>
  Lines 124 to 130: the proxy of this attempt. The result is \<open>proxy_config\<close>,
  \<open>proxy_data\<close> (unset when the list is empty) and the lines printed.
\<close>

definition select_proxy ::
  "'f world \<Rightarrow> 'f proxy list \<Rightarrow> nat \<Rightarrow>
     'f proxy_config option \<times> 'f proxy option \<times> 'f event list" where
  "select_proxy w available_proxies attempt =
     (if available_proxies \<noteq> [] then
        (let proxy_data =
               available_proxies ! (random_choice w attempt mod length available_proxies);
             created = create_proxy_config w proxy_data
         in (fst created, Some proxy_data,
             snd created @
             (if fst created \<noteq> None
              then [Stderr (UsingProxy (format_value w (proxy_address proxy_data))
                                       (format_value w (port proxy_data)))]
              else [])))
      else (None, None, []))"

definition segment_dict :: "'f snippet \<Rightarrow> 'f pyval" where
  "segment_dict snippet =
     PDict [(''text'', PStr (snippet_text snippet)),
            (''start'', PFloat (snippet_start snippet)),
            (''duration'', PFloat (snippet_duration snippet))]"

definition proxy_used_text ::
  "'f world \<Rightarrow> 'f proxy_config option \<Rightarrow> 'f proxy option \<Rightarrow> string" where
  "proxy_used_text w proxy_config proxy_data =
     (case (proxy_config, proxy_data) of
        (Some c, Some p) \<Rightarrow>
          format_value w (proxy_address p) @ '':'' @ format_value w (port p)
      | _ \<Rightarrow> ''none'')"

text \<open>The dictionary of lines 151 to 158.\<close>

definition success_result ::
  "'f world \<Rightarrow> 'f snippet list \<Rightarrow> nat \<Rightarrow> 'f proxy_config option \<Rightarrow> 'f proxy option \<Rightarrow>
     'f pydict" where
  "success_result w fetched_transcript attempt proxy_config proxy_data =
     [(''success'', PBool True),
      (''segments'', PList (map segment_dict fetched_transcript)),
      (''fullText'', PStr (join '' '' (map snippet_text fetched_transcript))),
      (''segmentCount'', PInt (int (length fetched_transcript))),
      (''attempt'', PInt (int attempt + 1)),
      (''proxy_used'', PStr (proxy_used_text w proxy_config proxy_data))]"

text \<open>
  The dictionary of the four failing returns (lines 174, 184, 201 and 210), which differ
  in the message and the error type only.
\<close>

definition failure_result :: "string \<Rightarrow> string \<Rightarrow> 'f pydict" where
  "failure_result err error_type =
     [(''success'', PBool False),
      (''error'', PStr err),
      (''errorType'', PStr error_type),
      (''segments'', PList []),
      (''fullText'', PStr []),
      (''segmentCount'', PInt 0)]"

definition prepend :: "'e list \<Rightarrow> 'e list \<times> 'r \<Rightarrow> 'e list \<times> 'r" where
  "prepend events run = (events @ fst run, snd run)"

text \<open>
  The \<open>for attempt in range(retry_count)\<close> loop from iteration \<open>attempt\<close> on, with the
  final return after it. The result is the events of the run in order and the
  dictionary returned.
\<close>

function attempt_loop ::
  "'f world \<Rightarrow> 'f proxy list \<Rightarrow> string \<Rightarrow> int \<Rightarrow> nat \<times> nat \<Rightarrow> nat \<Rightarrow>
     'f event list \<times> 'f pydict" where
  "attempt_loop w available_proxies video_id retry_count delay_range attempt =
     (if int attempt < retry_count then
        (let selected = select_proxy w available_proxies attempt;
             proxy_config = fst selected;
             proxy_data = fst (snd selected);
             events =
               retry_jitter retry_count delay_range attempt @ snd (snd selected) @
               [ApiFetch (create_api_instance proxy_config True) video_id
                  [''en'', ''en-US'', ''en-GB'']]
         in case api_fetch w attempt of
              Inr fetched_transcript \<Rightarrow>
                (events, success_result w fetched_transcript attempt proxy_config proxy_data)
            | Inl error_msg \<Rightarrow>
                if sublist ''IP'' error_msg \<or> sublist ''blocked'' (str_lower w error_msg)
                   \<or> sublist ''429'' error_msg
                then
                  if int attempt < retry_count - 1
                  then
                    prepend
                      (events @
                       [Stderr (RateLimitWait (2 ^ attempt * 30) (int attempt + 2) retry_count),
                        Sleep (Seconds (2 ^ attempt * 30))])
                      (attempt_loop w available_proxies video_id retry_count delay_range
                         (Suc attempt))
                  else
                    (events,
                     failure_result
                       (''IP blocked/rate limited after '' @ str_int retry_count
                        @ '' attempts: '' @ error_msg)
                       ''IP_BLOCKED'')
                else if sublist ''transcript'' (str_lower w error_msg)
                        \<or> sublist ''available'' (str_lower w error_msg)
                then
                  (events,
                   failure_result (''No transcript available: '' @ error_msg) ''NO_TRANSCRIPT'')
                else
                  if int attempt < retry_count - 1
                  then
                    prepend
                      (events @
                       [Stderr (GeneralErrorWait (int attempt + 2) retry_count error_msg),
                        Sleep (Uniform 2 5)])
                      (attempt_loop w available_proxies video_id retry_count delay_range
                         (Suc attempt))
                  else
                    (events,
                     failure_result
                       (''Failed after '' @ str_int retry_count @ '' attempts: '' @ error_msg)
                       ''UNKNOWN''))
      else
        ([],
         failure_result (''All '' @ str_int retry_count @ '' attempts failed'')
           ''MAX_RETRIES_EXCEEDED''))"
  by pat_completeness auto
termination
  by (relation "measure (\<lambda>(w, ps, v, retry_count, d, attempt). nat (retry_count - int attempt))")
     auto

declare attempt_loop.simps [simp del]

text \<open>
  \<open>extract_transcript\<close>: fetch the proxy list, then run the loop from attempt 0.
\<close>

definition extract_transcript ::
  "'f world \<Rightarrow> string \<Rightarrow> int \<Rightarrow> nat \<times> nat \<Rightarrow> 'f event list \<times> 'f pydict" where
  "extract_transcript w video_id retry_count delay_range =
     (let fetched = fetch_webshare_proxies (WEBSHARE_API_KEY w) (requests_get w);
          available_proxies = fst fetched
      in prepend (map Stderr (snd fetched))
           (attempt_loop w available_proxies video_id retry_count delay_range 0))"

section \<open>Vocabulary for the properties\<close>

text \<open>The two conditions of the \<open>except\<close> block, lines 166 and 183.\<close>

definition rate_limit_signal :: "'f world \<Rightarrow> string \<Rightarrow> bool" where
  "rate_limit_signal w error_msg \<longleftrightarrow>
     sublist ''IP'' error_msg \<or> sublist ''blocked'' (str_lower w error_msg)
     \<or> sublist ''429'' error_msg"

definition no_transcript_signal :: "'f world \<Rightarrow> string \<Rightarrow> bool" where
  "no_transcript_signal w error_msg \<longleftrightarrow>
     sublist ''transcript'' (str_lower w error_msg)
     \<or> sublist ''available'' (str_lower w error_msg)"

text \<open>
  An attempt is retried when its fetch raised an error that the \<open>except\<close> block does not
  end the run on: one of the rate-limit class, or one of neither class. Attempt \<open>k\<close> is
  made when \<open>k < retry_count\<close> and every attempt before it is retried.
\<close>

definition retried :: "'f world \<Rightarrow> nat \<Rightarrow> bool" where
  "retried w attempt \<longleftrightarrow>
     (case api_fetch w attempt of
        Inr fetched \<Rightarrow> False
      | Inl error_msg \<Rightarrow>
          rate_limit_signal w error_msg \<or> \<not> no_transcript_signal w error_msg)"

text \<open>What one iteration does up to and including the call of \<open>fetch\<close>.\<close>

definition attempt_events ::
  "'f world \<Rightarrow> 'f proxy list \<Rightarrow> string \<Rightarrow> int \<Rightarrow> nat \<times> nat \<Rightarrow> nat \<Rightarrow> 'f event list" where
  "attempt_events w available_proxies video_id retry_count delay_range attempt =
     retry_jitter retry_count delay_range attempt @
     snd (snd (select_proxy w available_proxies attempt)) @
     [ApiFetch (create_api_instance (fst (select_proxy w available_proxies attempt)) True)
        video_id [''en'', ''en-US'', ''en-GB'']]"

text \<open>The clients that \<open>fetch\<close> was called on during a run, in order.\<close>

fun fetch_calls :: "'f event list \<Rightarrow> 'f api_instance list" where
  "fetch_calls [] = []"
| "fetch_calls (ApiFetch api video_id languages # es) = api # fetch_calls es"
| "fetch_calls (Stderr l # es) = fetch_calls es"
| "fetch_calls (Sleep d # es) = fetch_calls es"

text \<open>The sleeps of a fixed number of seconds during a run (line 171), in order.\<close>

fun backoff_waits :: "'f event list \<Rightarrow> nat list" where
  "backoff_waits [] = []"
| "backoff_waits (Sleep (Seconds s) # es) = s # backoff_waits es"
| "backoff_waits (Sleep (Uniform a b) # es) = backoff_waits es"
| "backoff_waits (Stderr l # es) = backoff_waits es"
| "backoff_waits (ApiFetch api video_id languages # es) = backoff_waits es"

definition error_types :: "string list" where
  "error_types = [''IP_BLOCKED'', ''NO_TRANSCRIPT'', ''UNKNOWN'', ''MAX_RETRIES_EXCEEDED'']"

text \<open>
  The two shapes of a dictionary that the loop, entered at iteration \<open>attempt\<close>, can
  return: the success dictionary of an iteration whose fetch succeeded, or a failure
  dictionary with one of the four error types and a message.
\<close>

definition loop_returns :: "'f world \<Rightarrow> int \<Rightarrow> nat \<Rightarrow> 'f pydict \<Rightarrow> bool" where
  "loop_returns w retry_count attempt r \<longleftrightarrow>
     (\<exists>k fetched proxy_config proxy_data.
        attempt \<le> k \<and> int k < retry_count \<and> api_fetch w k = Inr fetched \<and>
        r = success_result w fetched k proxy_config proxy_data)
     \<or> (\<exists>err t. t \<in> set error_types \<and> err \<noteq> [] \<and> r = failure_result err t)"

text \<open>The text of a segment of the result.\<close>

definition segment_text :: "'f pyval \<Rightarrow> string" where
  "segment_text seg = (case subscript seg ''text'' of Inr (PStr t) \<Rightarrow> t | _ \<Rightarrow> [])"

text \<open>
  A match without regard to case, for a needle written in lower case: the needle occurs
  in the lower-cased text.
\<close>

definition matches_any_case :: "'f world \<Rightarrow> string \<Rightarrow> string \<Rightarrow> bool" where
  "matches_any_case w needle hay \<longleftrightarrow> sublist needle (str_lower w hay)"

datatype error_class = RateLimit | NoTranscript | Unknown

text \<open>
  The classification as the specification words it, every pattern matched without
  regard to case.
\<close>

definition stated_class :: "'f world \<Rightarrow> string \<Rightarrow> error_class" where
  "stated_class w error_msg =
     (if matches_any_case w ''ip'' error_msg \<or> matches_any_case w ''blocked'' error_msg
         \<or> matches_any_case w ''429'' error_msg
      then RateLimit
      else if matches_any_case w ''transcript'' error_msg
              \<or> matches_any_case w ''available'' error_msg
      then NoTranscript
      else Unknown)"

text \<open>
  The same with \<open>IP\<close> matched as written, in upper case, and the digits \<open>429\<close>, which
  have no case, matched as written too.
\<close>

definition amended_class :: "'f world \<Rightarrow> string \<Rightarrow> error_class" where
  "amended_class w error_msg =
     (if sublist ''IP'' error_msg \<or> matches_any_case w ''blocked'' error_msg
         \<or> sublist ''429'' error_msg
      then RateLimit
      else if matches_any_case w ''transcript'' error_msg
              \<or> matches_any_case w ''available'' error_msg
      then NoTranscript
      else Unknown)"

text \<open>
  A field is populated when its key is present with a value that is not empty
  (not \<open>None\<close>, \<open>0\<close>, the empty string, list or dictionary).
\<close>

fun nonempty_value :: "'f pyval \<Rightarrow> bool" where
  "nonempty_value PNone = False"
| "nonempty_value (PBool b) = True"
| "nonempty_value (PInt i) = (i \<noteq> 0)"
| "nonempty_value (PFloat x) = True"
| "nonempty_value (PStr s) = (s \<noteq> [])"
| "nonempty_value (PList xs) = (xs \<noteq> [])"
| "nonempty_value (PDict kvs) = (kvs \<noteq> [])"

definition populated :: "'f pydict \<Rightarrow> string \<Rightarrow> bool" where
  "populated r k = (case map_of r k of None \<Rightarrow> False | Some v \<Rightarrow> nonempty_value v)"

definition present :: "'f pydict \<Rightarrow> string \<Rightarrow> bool" where
  "present r k \<longleftrightarrow> map_of r k \<noteq> None"

definition success_path_fields :: "string list" where
  "success_path_fields = [''segments'', ''fullText'', ''segmentCount'', ''attempt'', ''proxy_used'']"

definition failure_path_fields :: "string list" where
  "failure_path_fields = [''error'', ''errorType'']"

text \<open>
  The invariant as the specification words it: by the value of \<open>success\<close>, the fields
  of one path are filled and those of the other are not. What counts as filled is the
  first argument.
\<close>

definition stated_exclusive :: "('f pydict \<Rightarrow> string \<Rightarrow> bool) \<Rightarrow> 'f pydict \<Rightarrow> bool" where
  "stated_exclusive filled r =
     (case map_of r ''success'' of
        Some (PBool True) \<Rightarrow>
          list_all (filled r) success_path_fields
          \<and> list_all (\<lambda>k. \<not> filled r k) failure_path_fields
      | Some (PBool False) \<Rightarrow>
          list_all (filled r) failure_path_fields
          \<and> list_all (\<lambda>k. \<not> filled r k) success_path_fields
      | _ \<Rightarrow> False)"

text \<open>
  The payload the proxy provider is expected to send: an object whose \<open>results\<close> is a
  list of objects that each have the four keys.
\<close>

fun has_proxy_keys :: "'f pyval \<Rightarrow> bool" where
  "has_proxy_keys (PDict kvs) =
     list_all (\<lambda>k. map_of kvs k \<noteq> None) [''proxy_address'', ''port'', ''username'', ''password'']"
| "has_proxy_keys _ = False"

fun well_formed_payload :: "'f pyval \<Rightarrow> bool" where
  "well_formed_payload (PDict kvs) =
     (case map_of kvs ''results'' of
        Some (PList items) \<Rightarrow> list_all has_proxy_keys items
      | _ \<Rightarrow> False)"
| "well_formed_payload _ = False"

text \<open>A log line that reports why no proxy is returned.\<close>

fun reports_no_proxies :: "log_line \<Rightarrow> bool" where
  "reports_no_proxies NoApiKey = True"
| "reports_no_proxies (WebshareApiError code body) = True"
| "reports_no_proxies (FailedToFetch e) = True"
| "reports_no_proxies (FetchedProxies n) = (n = 0)"
| "reports_no_proxies _ = False"

text \<open>
  The call ends without proxies and says so: the list returned is empty and the last
  line logged reports it.
\<close>

definition quiet_failure :: "'f proxy list \<times> log_line list \<Rightarrow> bool" where
  "quiet_failure r \<longleftrightarrow> fst r = [] \<and> snd r \<noteq> [] \<and> reports_no_proxies (last (snd r))"

section \<open>Example runs\<close>

text \<open>
  Worlds to run the script in: no API key, so no proxies; floats written as their
  decimal text; the outcome of each fetch given by the argument. Their messages are
  ASCII text, on which \<open>str.lower\<close> moves the letters A to Z to a to z and leaves every
  other character.
\<close>

definition ascii_lower_char :: "char \<Rightarrow> char" where
  "ascii_lower_char c =
     (case map_of (zip ''ABCDEFGHIJKLMNOPQRSTUVWXYZ'' ''abcdefghijklmnopqrstuvwxyz'') c of
        Some d \<Rightarrow> d
      | None \<Rightarrow> c)"

definition ascii_lower :: "string \<Rightarrow> string" where
  "ascii_lower s = map ascii_lower_char s"

definition example_format :: "string pyval \<Rightarrow> string" where
  "example_format v = (case v of PStr s \<Rightarrow> s | PInt i \<Rightarrow> str_int i | _ \<Rightarrow> ''?'')"

definition example_world :: "(nat \<Rightarrow> string + string snippet list) \<Rightarrow> string world" where
  "example_world outcomes =
     \<lparr>WEBSHARE_API_KEY = [],
      requests_get = Inl (Raised ''offline''),
      random_choice = (\<lambda>attempt. 0),
      WebshareProxyConfig = (\<lambda>u p. Inr \<lparr>proxy_username = u, proxy_password = p\<rparr>),
      api_fetch = outcomes,
      format_value = example_format,
      str_lower = ascii_lower\<rparr>"

definition hello_world :: "string snippet list" where
  "hello_world =
     [\<lparr>snippet_text = ''Hello'', snippet_start = ''0.0'', snippet_duration = ''1.2''\<rparr>,
      \<lparr>snippet_text = ''world'', snippet_start = ''1.2'', snippet_duration = ''0.8''\<rparr>]"

text \<open>The example of the specification: two answers 429, then the transcript.\<close>

definition throttled_twice :: "nat \<Rightarrow> string + string snippet list" where
  "throttled_twice attempt =
     (if attempt < 2 then Inl ''429 Too Many Requests'' else Inr hello_world)"

text \<open>
  Answers of the proxy provider: one proxy, and the same with the password missing.
\<close>

definition one_proxy_payload :: "string pyval" where
  "one_proxy_payload =
     PDict [(''count'', PInt 1),
            (''results'',
             PList [PDict [(''proxy_address'', PStr ''p.webshare.io''), (''port'', PInt 80),
                           (''username'', PStr ''user''), (''password'', PStr ''pass'')]])]"

definition truncated_payload :: "string pyval" where
  "truncated_payload =
     PDict [(''count'', PInt 1),
            (''results'',
             PList [PDict [(''proxy_address'', PStr ''p.webshare.io''), (''port'', PInt 80),
                           (''username'', PStr ''user'')]])]"

definition ok_response :: "string pyval \<Rightarrow> string response" where
  "ok_response payload =
     \<lparr>status_code = 200, response_text = ''{...}'', response_json = Inr payload\<rparr>"

text \<open>
  A world whose \<open>str.lower\<close> follows Unicode on one message: the Kelvin sign (U+212A, here
  the three bytes of its UTF-8 form) is lower-cased to \<open>k\<close>.
\<close>

definition kelvin_blocked :: string where
  "kelvin_blocked = ''BLOC'' @ [CHR 0xE2, CHR 0x84, CHR 0xAA] @ ''ED''"

definition kelvin_world :: "string world" where
  "kelvin_world =
     (example_world (\<lambda>attempt. Inl kelvin_blocked))
       \<lparr>str_lower := (\<lambda>s. if s = kelvin_blocked then ''blocked'' else ascii_lower s)\<rparr>"

section \<open>One iteration of the loop\<close>

lemma snd_prepend: "snd (prepend events run) = snd run"
  by (simp add: prepend_def)

lemma fst_prepend: "fst (prepend events run) = events @ fst run"
  by (simp add: prepend_def)

lemma loop_exhausted:
  "\<not> int attempt < rc \<Longrightarrow>
   attempt_loop w ps vid rc dr attempt =
     ([], failure_result (''All '' @ str_int rc @ '' attempts failed'') ''MAX_RETRIES_EXCEEDED'')"
  by (subst attempt_loop.simps) simp

lemma loop_success:
  "int attempt < rc \<Longrightarrow> api_fetch w attempt = Inr fetched \<Longrightarrow>
   attempt_loop w ps vid rc dr attempt =
     (attempt_events w ps vid rc dr attempt,
      success_result w fetched attempt (fst (select_proxy w ps attempt))
        (fst (snd (select_proxy w ps attempt))))"
  by (subst attempt_loop.simps) (simp add: Let_def attempt_events_def)

lemma loop_rate_limit_retry:
  "int attempt < rc - 1 \<Longrightarrow> api_fetch w attempt = Inl msg \<Longrightarrow> rate_limit_signal w msg \<Longrightarrow>
   attempt_loop w ps vid rc dr attempt =
     prepend
       (attempt_events w ps vid rc dr attempt @
        [Stderr (RateLimitWait (2 ^ attempt * 30) (int attempt + 2) rc),
         Sleep (Seconds (2 ^ attempt * 30))])
       (attempt_loop w ps vid rc dr (Suc attempt))"
  by (subst attempt_loop.simps) (simp add: Let_def attempt_events_def rate_limit_signal_def)

lemma loop_rate_limit_last:
  "int attempt < rc \<Longrightarrow> \<not> int attempt < rc - 1 \<Longrightarrow> api_fetch w attempt = Inl msg \<Longrightarrow>
   rate_limit_signal w msg \<Longrightarrow>
   attempt_loop w ps vid rc dr attempt =
     (attempt_events w ps vid rc dr attempt,
      failure_result
        (''IP blocked/rate limited after '' @ str_int rc @ '' attempts: '' @ msg)
        ''IP_BLOCKED'')"
  by (subst attempt_loop.simps) (simp add: Let_def attempt_events_def rate_limit_signal_def)

lemma loop_no_transcript:
  "int attempt < rc \<Longrightarrow> api_fetch w attempt = Inl msg \<Longrightarrow> \<not> rate_limit_signal w msg \<Longrightarrow>
   no_transcript_signal w msg \<Longrightarrow>
   attempt_loop w ps vid rc dr attempt =
     (attempt_events w ps vid rc dr attempt,
      failure_result (''No transcript available: '' @ msg) ''NO_TRANSCRIPT'')"
  by (subst attempt_loop.simps)
     (simp add: Let_def attempt_events_def rate_limit_signal_def no_transcript_signal_def)

lemma loop_unknown_retry:
  "int attempt < rc - 1 \<Longrightarrow> api_fetch w attempt = Inl msg \<Longrightarrow> \<not> rate_limit_signal w msg \<Longrightarrow>
   \<not> no_transcript_signal w msg \<Longrightarrow>
   attempt_loop w ps vid rc dr attempt =
     prepend
       (attempt_events w ps vid rc dr attempt @
        [Stderr (GeneralErrorWait (int attempt + 2) rc msg), Sleep (Uniform 2 5)])
       (attempt_loop w ps vid rc dr (Suc attempt))"
  by (subst attempt_loop.simps)
     (simp add: Let_def attempt_events_def rate_limit_signal_def no_transcript_signal_def)

lemma loop_unknown_last:
  "int attempt < rc \<Longrightarrow> \<not> int attempt < rc - 1 \<Longrightarrow> api_fetch w attempt = Inl msg \<Longrightarrow>
   \<not> rate_limit_signal w msg \<Longrightarrow> \<not> no_transcript_signal w msg \<Longrightarrow>
   attempt_loop w ps vid rc dr attempt =
     (attempt_events w ps vid rc dr attempt,
      failure_result (''Failed after '' @ str_int rc @ '' attempts: '' @ msg) ''UNKNOWN'')"
  by (subst attempt_loop.simps)
     (simp add: Let_def attempt_events_def rate_limit_signal_def no_transcript_signal_def)

section \<open>What the loop returns\<close>

lemma loop_returns_success:
  "attempt \<le> k \<Longrightarrow> int k < rc \<Longrightarrow> api_fetch w k = Inr fetched \<Longrightarrow>
   loop_returns w rc attempt (success_result w fetched k pc pd)"
  unfolding loop_returns_def by blast

lemma loop_returns_failure:
  "t \<in> set error_types \<Longrightarrow> err \<noteq> [] \<Longrightarrow> loop_returns w rc attempt (failure_result err t)"
  unfolding loop_returns_def by blast

lemma loop_returns_earlier:
  "loop_returns w rc (Suc attempt) r \<Longrightarrow> loop_returns w rc attempt r"
  unfolding loop_returns_def by (metis Suc_leD)

lemma attempt_loop_returns:
  "loop_returns w rc attempt (snd (attempt_loop w ps vid rc dr attempt))"
proof (induction "nat (rc - int attempt)" arbitrary: attempt)
  case 0
  then have over: "\<not> int attempt < rc" by simp
  show ?case
    by (simp only: loop_exhausted[OF over] snd_conv)
       (rule loop_returns_failure; simp add: error_types_def)
next
  case (Suc n)
  then have lt: "int attempt < rc" by linarith
  have IH: "loop_returns w rc (Suc attempt) (snd (attempt_loop w ps vid rc dr (Suc attempt)))"
    using Suc(1)[of "Suc attempt"] Suc(2) by simp
  show ?case
  proof (cases "api_fetch w attempt")
    case (Inr fetched)
    show ?thesis
      by (simp only: loop_success[OF lt Inr] snd_conv)
         (rule loop_returns_success[OF le_refl lt Inr])
  next
    case (Inl msg)
    consider (rl_retry) "rate_limit_signal w msg" "int attempt < rc - 1"
      | (rl_last) "rate_limit_signal w msg" "\<not> int attempt < rc - 1"
      | (nt) "\<not> rate_limit_signal w msg" "no_transcript_signal w msg"
      | (un_retry) "\<not> rate_limit_signal w msg" "\<not> no_transcript_signal w msg" "int attempt < rc - 1"
      | (un_last) "\<not> rate_limit_signal w msg" "\<not> no_transcript_signal w msg" "\<not> int attempt < rc - 1"
      by blast
    then show ?thesis
    proof cases
      case rl_retry
      show ?thesis
        by (simp only: loop_rate_limit_retry[OF rl_retry(2) Inl rl_retry(1)] snd_prepend)
           (rule loop_returns_earlier[OF IH])
    next
      case rl_last
      show ?thesis
        by (simp only: loop_rate_limit_last[OF lt rl_last(2) Inl rl_last(1)] snd_conv)
           (rule loop_returns_failure; simp add: error_types_def)
    next
      case nt
      show ?thesis
        by (simp only: loop_no_transcript[OF lt Inl nt] snd_conv)
           (rule loop_returns_failure; simp add: error_types_def)
    next
      case un_retry
      show ?thesis
        by (simp only: loop_unknown_retry[OF un_retry(3) Inl un_retry(1,2)] snd_prepend)
           (rule loop_returns_earlier[OF IH])
    next
      case un_last
      show ?thesis
        by (simp only: loop_unknown_last[OF lt un_last(3) Inl un_last(1,2)] snd_conv)
           (rule loop_returns_failure; simp add: error_types_def)
    qed
  qed
qed

lemma extract_transcript_snd:
  "snd (extract_transcript w vid rc dr) =
     snd (attempt_loop w (fst (fetch_webshare_proxies (WEBSHARE_API_KEY w) (requests_get w)))
            vid rc dr 0)"
  by (simp add: extract_transcript_def Let_def snd_prepend)

lemma extract_transcript_fst:
  "fst (extract_transcript w vid rc dr) =
     map Stderr (snd (fetch_webshare_proxies (WEBSHARE_API_KEY w) (requests_get w))) @
     fst (attempt_loop w (fst (fetch_webshare_proxies (WEBSHARE_API_KEY w) (requests_get w)))
            vid rc dr 0)"
  by (simp add: extract_transcript_def Let_def fst_prepend)

lemma extract_transcript_returns:
  "loop_returns w rc 0 (snd (extract_transcript w vid rc dr))"
  by (simp only: extract_transcript_snd attempt_loop_returns)

lemma map_of_success_result:
  "map_of (success_result w fetched k pc pd) ''success'' = Some (PBool True)"
  "map_of (success_result w fetched k pc pd) ''segments'' = Some (PList (map segment_dict fetched))"
  "map_of (success_result w fetched k pc pd) ''fullText'' =
     Some (PStr (join '' '' (map snippet_text fetched)))"
  "map_of (success_result w fetched k pc pd) ''segmentCount'' = Some (PInt (int (length fetched)))"
  "map_of (success_result w fetched k pc pd) ''attempt'' = Some (PInt (int k + 1))"
  "map_of (success_result w fetched k pc pd) ''proxy_used'' = Some (PStr (proxy_used_text w pc pd))"
  "map_of (success_result w fetched k pc pd) ''error'' = None"
  "map_of (success_result w fetched k pc pd) ''errorType'' = None"
  by (simp_all add: success_result_def)

lemma map_of_failure_result:
  "map_of (failure_result err t) ''success'' = Some (PBool False)"
  "map_of (failure_result err t) ''error'' = Some (PStr err)"
  "map_of (failure_result err t) ''errorType'' = Some (PStr t)"
  "map_of (failure_result err t) ''segments'' = Some (PList [])"
  "map_of (failure_result err t) ''fullText'' = Some (PStr [])"
  "map_of (failure_result err t) ''segmentCount'' = Some (PInt 0)"
  "map_of (failure_result err t) ''attempt'' = None"
  "map_of (failure_result err t) ''proxy_used'' = None"
  by (simp_all add: failure_result_def)

lemma segment_text_dict: "segment_text (segment_dict s) = snippet_text s"
  by (simp add: segment_text_def segment_dict_def)

lemma map_segment_text: "map segment_text (map segment_dict fetched) = map snippet_text fetched"
  by (simp add: segment_text_dict)

section \<open>The success result\<close>

text \<open>
  C1. When \<open>extract_transcript\<close> returns a dictionary whose \<open>success\<close> is true, the
  keys \<open>segments\<close>, \<open>fullText\<close>, \<open>segmentCount\<close>, \<open>attempt\<close> and \<open>proxy_used\<close> are
  present; \<open>segments\<close> is the fetched sequence of some attempt, converted snippet by
  snippet in the same order; \<open>segmentCount\<close> is the length of \<open>segments\<close>; and
  \<open>fullText\<close> is the texts of the segments joined by single spaces in that order.
\<close>

theorem success_result_fields:
  assumes "map_of (snd (extract_transcript w vid rc dr)) ''success'' = Some (PBool True)"
  shows "\<exists>fetched k segments proxy_text.
           int k < rc \<and> api_fetch w k = Inr fetched \<and>
           segments = map segment_dict fetched \<and>
           map_of (snd (extract_transcript w vid rc dr)) ''segments'' = Some (PList segments) \<and>
           map_of (snd (extract_transcript w vid rc dr)) ''segmentCount''
             = Some (PInt (int (length segments))) \<and>
           map_of (snd (extract_transcript w vid rc dr)) ''fullText''
             = Some (PStr (join '' '' (map segment_text segments))) \<and>
           map_of (snd (extract_transcript w vid rc dr)) ''attempt'' = Some (PInt (int k + 1)) \<and>
           map_of (snd (extract_transcript w vid rc dr)) ''proxy_used'' = Some (PStr proxy_text)"
proof -
  let ?r = "snd (extract_transcript w vid rc dr)"
  have "loop_returns w rc 0 ?r" by (rule extract_transcript_returns)
  then consider
    (ok) k fetched pc pd where "int k < rc" "api_fetch w k = Inr fetched"
         "?r = success_result w fetched k pc pd"
    | (fail) err t where "?r = failure_result err t"
    unfolding loop_returns_def by blast
  then show ?thesis
  proof cases
    case ok
    show ?thesis
      apply (rule exI[of _ fetched], rule exI[of _ k])
      apply (rule exI[of _ "map segment_dict fetched"])
      apply (rule exI[of _ "proxy_used_text w pc pd"])
      using ok(1,2) by (simp only: ok(3) map_of_success_result map_segment_text length_map)
  next
    case fail
    with assms show ?thesis by (simp add: map_of_failure_result)
  qed
qed

theorem success_result_fields_witness:
  "map_of (snd (extract_transcript (example_world throttled_twice) ''abc123'' 3 (1, 3)))
     ''success'' = Some (PBool True)
   \<and> (\<exists>fetched k segments proxy_text.
           int k < 3 \<and> api_fetch (example_world throttled_twice) k = Inr fetched \<and>
           segments = map segment_dict fetched \<and>
           map_of (snd (extract_transcript (example_world throttled_twice) ''abc123'' 3 (1, 3)))
             ''segments'' = Some (PList segments) \<and>
           map_of (snd (extract_transcript (example_world throttled_twice) ''abc123'' 3 (1, 3)))
             ''segmentCount'' = Some (PInt (int (length segments))) \<and>
           map_of (snd (extract_transcript (example_world throttled_twice) ''abc123'' 3 (1, 3)))
             ''fullText'' = Some (PStr (join '' '' (map segment_text segments))) \<and>
           map_of (snd (extract_transcript (example_world throttled_twice) ''abc123'' 3 (1, 3)))
             ''attempt'' = Some (PInt (int k + 1)) \<and>
           map_of (snd (extract_transcript (example_world throttled_twice) ''abc123'' 3 (1, 3)))
             ''proxy_used'' = Some (PStr proxy_text))"
proof -
  have ok: "map_of (snd (extract_transcript (example_world throttled_twice) ''abc123'' 3 (1, 3)))
     ''success'' = Some (PBool True)"
    by code_simp
  show ?thesis
    using ok success_result_fields [OF ok] by simp
qed

text \<open>The example of the specification, run.\<close>

lemma specification_example:
  "snd (extract_transcript (example_world throttled_twice) ''abc123'' 3 (1, 3)) =
     [(''success'', PBool True),
      (''segments'',
       PList
         [PDict [(''text'', PStr ''Hello''), (''start'', PFloat ''0.0''),
                 (''duration'', PFloat ''1.2'')],
          PDict [(''text'', PStr ''world''), (''start'', PFloat ''1.2''),
                 (''duration'', PFloat ''0.8'')]]),
      (''fullText'', PStr ''Hello world''),
      (''segmentCount'', PInt 2),
      (''attempt'', PInt 3),
      (''proxy_used'', PStr ''none'')]"
  by code_simp


lemma extract_transcript_cases:
  obtains (succeeded) k fetched pc pd where
      "int k < rc" "api_fetch w k = Inr fetched"
      "snd (extract_transcript w vid rc dr) = success_result w fetched k pc pd"
    | (failed) err t where
      "t \<in> set error_types" "err \<noteq> []"
      "snd (extract_transcript w vid rc dr) = failure_result err t"
  using extract_transcript_returns[of w rc vid dr] unfolding loop_returns_def by blast

section \<open>The failure result\<close>

text \<open>
  C5. When \<open>extract_transcript\<close> returns a dictionary whose \<open>success\<close> is false, the
  keys \<open>error\<close> and \<open>errorType\<close> are present, \<open>errorType\<close> is one of \<open>IP_BLOCKED\<close>,
  \<open>NO_TRANSCRIPT\<close>, \<open>UNKNOWN\<close> and \<open>MAX_RETRIES_EXCEEDED\<close>, \<open>segments\<close> is the empty
  list, \<open>fullText\<close> the empty string and \<open>segmentCount\<close> zero.
\<close>

theorem failure_result_fields:
  assumes "map_of (snd (extract_transcript w vid rc dr)) ''success'' = Some (PBool False)"
  shows "\<exists>err t.
           map_of (snd (extract_transcript w vid rc dr)) ''error'' = Some (PStr err) \<and>
           map_of (snd (extract_transcript w vid rc dr)) ''errorType'' = Some (PStr t) \<and>
           t \<in> set error_types \<and>
           map_of (snd (extract_transcript w vid rc dr)) ''segments'' = Some (PList []) \<and>
           map_of (snd (extract_transcript w vid rc dr)) ''fullText'' = Some (PStr []) \<and>
           map_of (snd (extract_transcript w vid rc dr)) ''segmentCount'' = Some (PInt 0)"
proof (cases rule: extract_transcript_cases [where w = w and vid = vid and rc = rc and dr = dr])
  case (succeeded k fetched pc pd)
  with assms show ?thesis by (simp add: map_of_success_result)
next
  case (failed err t)
  then show ?thesis by (simp only: map_of_failure_result) blast
qed

theorem failure_result_fields_witness:
  "map_of (snd (extract_transcript (example_world (\<lambda>attempt. Inl ''boom'')) ''abc123'' 3 (1, 3)))
     ''success'' = Some (PBool False)
   \<and> (\<exists>err t.
         map_of (snd (extract_transcript (example_world (\<lambda>attempt. Inl ''boom'')) ''abc123'' 3 (1, 3)))
           ''error'' = Some (PStr err) \<and>
         map_of (snd (extract_transcript (example_world (\<lambda>attempt. Inl ''boom'')) ''abc123'' 3 (1, 3)))
           ''errorType'' = Some (PStr t) \<and>
         t \<in> set error_types \<and>
         map_of (snd (extract_transcript (example_world (\<lambda>attempt. Inl ''boom'')) ''abc123'' 3 (1, 3)))
           ''segments'' = Some (PList []) \<and>
         map_of (snd (extract_transcript (example_world (\<lambda>attempt. Inl ''boom'')) ''abc123'' 3 (1, 3)))
           ''fullText'' = Some (PStr []) \<and>
         map_of (snd (extract_transcript (example_world (\<lambda>attempt. Inl ''boom'')) ''abc123'' 3 (1, 3)))
           ''segmentCount'' = Some (PInt 0))"
proof -
  have no: "map_of (snd (extract_transcript (example_world (\<lambda>attempt. Inl ''boom'')) ''abc123'' 3 (1, 3)))
     ''success'' = Some (PBool False)"
    by code_simp
  show ?thesis
    using no failure_result_fields [OF no] by simp
qed

section \<open>Keys of one path only\<close>

text \<open>
  C10. A failure result has neither the key \<open>attempt\<close> nor the key \<open>proxy_used\<close>, and a
  success result has neither the key \<open>error\<close> nor the key \<open>errorType\<close>.
\<close>

theorem absent_keys:
  "(map_of (snd (extract_transcript w vid rc dr)) ''success'' = Some (PBool False) \<longrightarrow>
      map_of (snd (extract_transcript w vid rc dr)) ''attempt'' = None \<and>
      map_of (snd (extract_transcript w vid rc dr)) ''proxy_used'' = None)
   \<and> (map_of (snd (extract_transcript w vid rc dr)) ''success'' = Some (PBool True) \<longrightarrow>
      map_of (snd (extract_transcript w vid rc dr)) ''error'' = None \<and>
      map_of (snd (extract_transcript w vid rc dr)) ''errorType'' = None)"
proof (cases rule: extract_transcript_cases [where w = w and vid = vid and rc = rc and dr = dr])
  case (succeeded k fetched pc pd)
  then show ?thesis by (simp add: map_of_success_result)
next
  case (failed err t)
  then show ?thesis by (simp add: map_of_failure_result)
qed

theorem absent_keys_witness:
  "map_of (snd (extract_transcript (example_world (\<lambda>attempt. Inl ''boom'')) ''abc123'' 3 (1, 3)))
     ''success'' = Some (PBool False)
   \<and> map_of (snd (extract_transcript (example_world (\<lambda>attempt. Inl ''boom'')) ''abc123'' 3 (1, 3)))
     ''attempt'' = None
   \<and> map_of (snd (extract_transcript (example_world (\<lambda>attempt. Inl ''boom'')) ''abc123'' 3 (1, 3)))
     ''proxy_used'' = None
   \<and> map_of (snd (extract_transcript (example_world throttled_twice) ''abc123'' 3 (1, 3)))
     ''success'' = Some (PBool True)
   \<and> map_of (snd (extract_transcript (example_world throttled_twice) ''abc123'' 3 (1, 3)))
     ''error'' = None
   \<and> map_of (snd (extract_transcript (example_world throttled_twice) ''abc123'' 3 (1, 3)))
     ''errorType'' = None"
proof -
  have no: "map_of (snd (extract_transcript (example_world (\<lambda>attempt. Inl ''boom'')) ''abc123'' 3 (1, 3)))
     ''success'' = Some (PBool False)"
    by code_simp
  have yes: "map_of (snd (extract_transcript (example_world throttled_twice) ''abc123'' 3 (1, 3)))
     ''success'' = Some (PBool True)"
    by code_simp
  show ?thesis
    using no yes
      absent_keys [of "example_world (\<lambda>attempt. Inl ''boom'')" "''abc123''" 3 "(1, 3)"]
      absent_keys [of "example_world throttled_twice" "''abc123''" 3 "(1, 3)"]
    by simp
qed

section \<open>Which fields are filled\<close>

lemma proxy_used_text_nonempty: "proxy_used_text w pc pd \<noteq> []"
  by (simp add: proxy_used_text_def split: option.splits)

lemma error_types_nonempty: "t \<in> set error_types \<Longrightarrow> t \<noteq> []"
  by (auto simp: error_types_def)

text \<open>
  C6, as amended. Every result has a boolean \<open>success\<close> that decides its shape. When
  it is true, \<open>attempt\<close> and \<open>proxy_used\<close> are populated, \<open>segments\<close>, \<open>fullText\<close> and
  \<open>segmentCount\<close> are present (they carry the transcript, so they are empty for a
  transcript without snippets), and \<open>error\<close> and \<open>errorType\<close> are absent. When it is
  false, \<open>error\<close> and \<open>errorType\<close> are populated, \<open>attempt\<close> and \<open>proxy_used\<close> are absent,
  and \<open>segments\<close>, \<open>fullText\<close> and \<open>segmentCount\<close> are present but empty.
\<close>

theorem fields_by_success:
  "(map_of (snd (extract_transcript w vid rc dr)) ''success'' = Some (PBool True)
      \<and> list_all (populated (snd (extract_transcript w vid rc dr))) [''attempt'', ''proxy_used'']
      \<and> list_all (present (snd (extract_transcript w vid rc dr)))
          [''segments'', ''fullText'', ''segmentCount'']
      \<and> list_all (\<lambda>k. \<not> present (snd (extract_transcript w vid rc dr)) k) failure_path_fields)
   \<or> (map_of (snd (extract_transcript w vid rc dr)) ''success'' = Some (PBool False)
      \<and> list_all (populated (snd (extract_transcript w vid rc dr))) failure_path_fields
      \<and> list_all (\<lambda>k. \<not> present (snd (extract_transcript w vid rc dr)) k)
          [''attempt'', ''proxy_used'']
      \<and> list_all (\<lambda>k. present (snd (extract_transcript w vid rc dr)) k
                       \<and> \<not> populated (snd (extract_transcript w vid rc dr)) k)
          [''segments'', ''fullText'', ''segmentCount''])"
proof (cases rule: extract_transcript_cases [where w = w and vid = vid and rc = rc and dr = dr])
  case (succeeded k fetched pc pd)
  have "int k + 1 \<noteq> 0" by linarith
  then show ?thesis
    by (simp add: succeeded(3) map_of_success_result populated_def present_def
        failure_path_fields_def proxy_used_text_nonempty)
next
  case (failed err t)
  then show ?thesis
    by (simp add: map_of_failure_result populated_def present_def
        failure_path_fields_def error_types_nonempty)
qed

text \<open>
  C6 as stated does not hold, whether a field counts as filled when its key is present
  or when its value is not empty: a failure result has the keys \<open>segments\<close>,
  \<open>fullText\<close> and \<open>segmentCount\<close>, and the success result of a transcript without
  snippets has an empty \<open>segments\<close>, \<open>fullText\<close> and \<open>segmentCount\<close>.
\<close>

theorem fields_not_exclusive:
  "\<not> stated_exclusive present
       (snd (extract_transcript (example_world (\<lambda>attempt. Inl ''no transcript'')) ''abc123'' 3 (1, 3)))
   \<and> \<not> stated_exclusive populated
       (snd (extract_transcript (example_world (\<lambda>attempt. Inr [])) ''abc123'' 3 (1, 3)))"
  by code_simp



section \<open>The events of a run\<close>

lemma fetch_calls_append: "fetch_calls (es @ fs) = fetch_calls es @ fetch_calls fs"
  by (induction es rule: fetch_calls.induct) simp_all

lemma backoff_waits_append: "backoff_waits (es @ fs) = backoff_waits es @ backoff_waits fs"
  by (induction es rule: backoff_waits.induct) simp_all

lemma fetch_calls_stderr: "fetch_calls (map Stderr ls) = []"
  by (induction ls) simp_all


lemma select_proxy_quiet:
  "fetch_calls (snd (snd (select_proxy w ps attempt))) = []"
  "backoff_waits (snd (snd (select_proxy w ps attempt))) = []"
  by (simp_all add: select_proxy_def Let_def create_proxy_config_def
      fetch_calls_append backoff_waits_append split: sum.splits)

lemma retry_jitter_quiet:
  "fetch_calls (retry_jitter rc dr attempt) = []"
  "backoff_waits (retry_jitter rc dr attempt) = []"
  by (simp_all add: retry_jitter_def)

lemma fetch_calls_attempt_events:
  "fetch_calls (attempt_events w ps vid rc dr attempt) =
     [create_api_instance (fst (select_proxy w ps attempt)) True]"
  by (simp add: attempt_events_def fetch_calls_append select_proxy_quiet retry_jitter_quiet)


lemma loop_first_events:
  "int attempt < rc \<Longrightarrow>
   \<exists>rest. fst (attempt_loop w ps vid rc dr attempt) = attempt_events w ps vid rc dr attempt @ rest"
proof (cases "api_fetch w attempt")
  case (Inr fetched)
  assume "int attempt < rc"
  then show ?thesis by (simp add: loop_success[OF _ Inr])
next
  case (Inl msg)
  assume lt: "int attempt < rc"
  consider (rl_retry) "rate_limit_signal w msg" "int attempt < rc - 1"
    | (rl_last) "rate_limit_signal w msg" "\<not> int attempt < rc - 1"
    | (nt) "\<not> rate_limit_signal w msg" "no_transcript_signal w msg"
    | (un_retry) "\<not> rate_limit_signal w msg" "\<not> no_transcript_signal w msg" "int attempt < rc - 1"
    | (un_last) "\<not> rate_limit_signal w msg" "\<not> no_transcript_signal w msg" "\<not> int attempt < rc - 1"
    by blast
  then show ?thesis
  proof cases
    case rl_retry
    show ?thesis
      by (simp add: loop_rate_limit_retry[OF rl_retry(2) Inl rl_retry(1)] fst_prepend)
  next
    case rl_last
    show ?thesis by (simp add: loop_rate_limit_last[OF lt rl_last(2) Inl rl_last(1)])
  next
    case nt
    show ?thesis by (simp add: loop_no_transcript[OF lt Inl nt])
  next
    case un_retry
    show ?thesis
      by (simp add: loop_unknown_retry[OF un_retry(3) Inl un_retry(1,2)] fst_prepend)
  next
    case un_last
    show ?thesis by (simp add: loop_unknown_last[OF lt un_last(3) Inl un_last(1,2)])
  qed
qed

section \<open>The return after the loop\<close>

text \<open>The loop falls through only when it is entered with no iteration left.\<close>

lemma loop_returns_inside:
  "int attempt < rc \<Longrightarrow>
   map_of (snd (attempt_loop w ps vid rc dr attempt)) ''errorType''
     \<noteq> Some (PStr ''MAX_RETRIES_EXCEEDED'')"
proof (induction "nat (rc - int attempt)" arbitrary: attempt)
  case 0
  then show ?case by simp
next
  case (Suc n)
  note lt = \<open>int attempt < rc\<close>
  show ?case
  proof (cases "api_fetch w attempt")
    case (Inr fetched)
    show ?thesis by (simp add: loop_success[OF lt Inr] map_of_success_result)
  next
    case (Inl msg)
    consider (rl_retry) "rate_limit_signal w msg" "int attempt < rc - 1"
      | (rl_last) "rate_limit_signal w msg" "\<not> int attempt < rc - 1"
      | (nt) "\<not> rate_limit_signal w msg" "no_transcript_signal w msg"
      | (un_retry) "\<not> rate_limit_signal w msg" "\<not> no_transcript_signal w msg" "int attempt < rc - 1"
      | (un_last) "\<not> rate_limit_signal w msg" "\<not> no_transcript_signal w msg" "\<not> int attempt < rc - 1"
      by blast
    then show ?thesis
    proof cases
      case rl_retry
      have "map_of (snd (attempt_loop w ps vid rc dr (Suc attempt))) ''errorType''
              \<noteq> Some (PStr ''MAX_RETRIES_EXCEEDED'')"
        using Suc(1)[of "Suc attempt"] Suc(2) rl_retry(2) by simp
      then show ?thesis
        unfolding loop_rate_limit_retry[OF rl_retry(2) Inl rl_retry(1)] snd_prepend .
    next
      case rl_last
      show ?thesis
        by (simp add: loop_rate_limit_last[OF lt rl_last(2) Inl rl_last(1)] map_of_failure_result)
    next
      case nt
      show ?thesis by (simp add: loop_no_transcript[OF lt Inl nt] map_of_failure_result)
    next
      case un_retry
      have "map_of (snd (attempt_loop w ps vid rc dr (Suc attempt))) ''errorType''
              \<noteq> Some (PStr ''MAX_RETRIES_EXCEEDED'')"
        using Suc(1)[of "Suc attempt"] Suc(2) un_retry(3) by simp
      then show ?thesis
        unfolding loop_unknown_retry[OF un_retry(3) Inl un_retry(1,2)] snd_prepend .
    next
      case un_last
      show ?thesis
        by (simp add: loop_unknown_last[OF lt un_last(3) Inl un_last(1,2)] map_of_failure_result)
    qed
  qed
qed

text \<open>
  C9. With \<open>retry_count\<close> at least 1 the return after the loop, the only one with the
  error type \<open>MAX_RETRIES_EXCEEDED\<close>, is not reached: an iteration returns, or goes on to
  a further iteration that exists, and the last iteration returns.
\<close>

theorem fallback_unreachable:
  assumes "1 \<le> rc"
  shows "map_of (snd (extract_transcript w vid rc dr)) ''errorType''
           \<noteq> Some (PStr ''MAX_RETRIES_EXCEEDED'')"
proof -
  from assms have "int 0 < rc" by simp
  then show ?thesis
    by (simp only: extract_transcript_snd) (rule loop_returns_inside)
qed

theorem fallback_unreachable_witness:
  "(1::int) \<le> 3
   \<and> map_of (snd (extract_transcript (example_world (\<lambda>attempt. Inl ''boom'')) ''abc123'' 3 (1, 3)))
       ''errorType'' \<noteq> Some (PStr ''MAX_RETRIES_EXCEEDED'')"
proof -
  have h: "(1::int) \<le> 3" by simp
  show ?thesis
    using h fallback_unreachable
      [OF h, of "example_world (\<lambda>attempt. Inl ''boom'')" "''abc123''" "(1, 3)"]
    by simp
qed

text \<open>With no iteration at all, the return after the loop is the one taken.\<close>

lemma fallback_without_attempts:
  "rc \<le> 0 \<Longrightarrow>
   extract_transcript w vid rc dr =
     (map Stderr (snd (fetch_webshare_proxies (WEBSHARE_API_KEY w) (requests_get w))),
      failure_result (''All '' @ str_int rc @ '' attempts failed'') ''MAX_RETRIES_EXCEEDED'')"
  by (simp add: extract_transcript_def Let_def prepend_def loop_exhausted)



section \<open>Running without proxies\<close>

lemma select_proxy_none: "select_proxy w [] attempt = (None, None, [])"
  by (simp add: select_proxy_def)

text \<open>Without proxies every client of the loop is the one without proxy configuration.\<close>

lemma loop_fetches_without_proxy:
  "list_all (\<lambda>api. api = create_api_instance None True)
     (fetch_calls (fst (attempt_loop w [] vid rc dr attempt)))"
proof (induction "nat (rc - int attempt)" arbitrary: attempt)
  case 0
  then have over: "\<not> int attempt < rc" by simp
  show ?case by (simp add: loop_exhausted[OF over])
next
  case (Suc n)
  then have lt: "int attempt < rc" by linarith
  have IH: "list_all (\<lambda>api. api = create_api_instance None True)
     (fetch_calls (fst (attempt_loop w [] vid rc dr (Suc attempt))))"
    using Suc(1)[of "Suc attempt"] Suc(2) by simp
  have here: "fetch_calls (attempt_events w [] vid rc dr attempt) = [create_api_instance None True]"
    by (simp add: fetch_calls_attempt_events select_proxy_none)
  show ?case
  proof (cases "api_fetch w attempt")
    case (Inr fetched)
    show ?thesis by (simp add: loop_success[OF lt Inr] here)
  next
    case (Inl msg)
    consider (rl_retry) "rate_limit_signal w msg" "int attempt < rc - 1"
      | (rl_last) "rate_limit_signal w msg" "\<not> int attempt < rc - 1"
      | (nt) "\<not> rate_limit_signal w msg" "no_transcript_signal w msg"
      | (un_retry) "\<not> rate_limit_signal w msg" "\<not> no_transcript_signal w msg" "int attempt < rc - 1"
      | (un_last) "\<not> rate_limit_signal w msg" "\<not> no_transcript_signal w msg" "\<not> int attempt < rc - 1"
      by blast
    then show ?thesis
    proof cases
      case rl_retry
      show ?thesis
        using IH
        by (simp add: loop_rate_limit_retry[OF rl_retry(2) Inl rl_retry(1)] fst_prepend
            fetch_calls_append here)
    next
      case rl_last
      show ?thesis by (simp add: loop_rate_limit_last[OF lt rl_last(2) Inl rl_last(1)] here)
    next
      case nt
      show ?thesis by (simp add: loop_no_transcript[OF lt Inl nt] here)
    next
      case un_retry
      show ?thesis
        using IH
        by (simp add: loop_unknown_retry[OF un_retry(3) Inl un_retry(1,2)] fst_prepend
            fetch_calls_append here)
    next
      case un_last
      show ?thesis by (simp add: loop_unknown_last[OF lt un_last(3) Inl un_last(1,2)] here)
    qed
  qed
qed

lemma loop_fetches_once:
  assumes "int attempt < rc"
  shows "fetch_calls (fst (attempt_loop w ps vid rc dr attempt)) \<noteq> []"
proof -
  obtain rest where
    "fst (attempt_loop w ps vid rc dr attempt) = attempt_events w ps vid rc dr attempt @ rest"
    using loop_first_events[OF assms] by blast
  then show ?thesis by (simp add: fetch_calls_append fetch_calls_attempt_events)
qed

text \<open>A retried attempt fetches once, and the loop goes on with the next attempt.\<close>

lemma loop_retry_fetch_calls:
  assumes "int a < rc - 1" and "retried w a"
  shows "fetch_calls (fst (attempt_loop w ps vid rc dr a)) =
           create_api_instance (fst (select_proxy w ps a)) True
           # fetch_calls (fst (attempt_loop w ps vid rc dr (Suc a)))"
proof (cases "api_fetch w a")
  case (Inr fetched)
  with assms(2) show ?thesis by (simp add: retried_def)
next
  case (Inl msg)
  with assms(2) have kind: "rate_limit_signal w msg \<or> \<not> no_transcript_signal w msg"
    by (simp add: retried_def)
  show ?thesis
  proof (cases "rate_limit_signal w msg")
    case True
    show ?thesis
      by (simp add: loop_rate_limit_retry[OF assms(1) Inl True] fst_prepend
          fetch_calls_append fetch_calls_attempt_events)
  next
    case False
    with kind have other: "\<not> no_transcript_signal w msg" by simp
    show ?thesis
      by (simp add: loop_unknown_retry[OF assms(1) Inl False other] fst_prepend
          fetch_calls_append fetch_calls_attempt_events)
  qed
qed

text \<open>
  Attempt \<open>a + k\<close> of the loop entered at attempt \<open>a\<close> fetches, on the client of the proxy
  selected for it, when it exists and the \<open>k\<close> attempts before it are retried.
\<close>

lemma loop_fetch_at:
  assumes "int (a + k) < rc" and "\<forall>i. a \<le> i \<and> i < a + k \<longrightarrow> retried w i"
  shows "k < length (fetch_calls (fst (attempt_loop w ps vid rc dr a)))
         \<and> fetch_calls (fst (attempt_loop w ps vid rc dr a)) ! k =
             create_api_instance (fst (select_proxy w ps (a + k))) True"
  using assms
proof (induction k arbitrary: a)
  case 0
  then have "int a < rc" by simp
  then obtain rest where
    "fst (attempt_loop w ps vid rc dr a) = attempt_events w ps vid rc dr a @ rest"
    using loop_first_events by blast
  then show ?case by (simp add: fetch_calls_append fetch_calls_attempt_events)
next
  case (Suc k)
  have more: "int a < rc - 1" using Suc.prems(1) by simp
  have here: "retried w a" using Suc.prems(2) by simp
  have later: "\<forall>i. Suc a \<le> i \<and> i < Suc a + k \<longrightarrow> retried w i"
    using Suc.prems(2) by simp
  have "int (Suc a + k) < rc" using Suc.prems(1) by simp
  from Suc.IH[OF this later] show ?case
    by (simp add: loop_retry_fetch_calls[OF more here])
qed

text \<open>
  C7. When the fetched proxy list is empty, every call of \<open>fetch\<close> in the run is made on
  a client built without proxy configuration; with \<open>retry_count\<close> at least 1 such a call
  is made, so the run does not fail before fetching; and each attempt fetches: for
  every \<open>k\<close> below \<open>retry_count\<close> such that the attempts before attempt \<open>k\<close> are all
  retried, the run has a call of \<open>fetch\<close> number \<open>k\<close>, made on the client without proxy
  configuration.
\<close>

theorem fetch_without_proxies:
  assumes "fst (fetch_webshare_proxies (WEBSHARE_API_KEY w) (requests_get w)) = []"
  shows "list_all (\<lambda>api. api = create_api_instance None True \<and> api_proxy_config api = None)
           (fetch_calls (fst (extract_transcript w vid rc dr)))
         \<and> (1 \<le> rc \<longrightarrow> fetch_calls (fst (extract_transcript w vid rc dr)) \<noteq> [])
         \<and> (\<forall>k. int k < rc \<and> (\<forall>i<k. retried w i) \<longrightarrow>
               k < length (fetch_calls (fst (extract_transcript w vid rc dr)))
               \<and> fetch_calls (fst (extract_transcript w vid rc dr)) ! k
                   = create_api_instance None True)"
proof -
  have none: "api_proxy_config (create_api_instance None True :: 'a api_instance) = None"
    by (simp add: create_api_instance_def)
  have calls: "fetch_calls (fst (extract_transcript w vid rc dr)) =
     fetch_calls (fst (attempt_loop w [] vid rc dr 0))"
    by (simp add: extract_transcript_fst assms fetch_calls_append fetch_calls_stderr)
  have "list_all (\<lambda>api. api = create_api_instance None True)
          (fetch_calls (fst (attempt_loop w [] vid rc dr 0)))"
    by (rule loop_fetches_without_proxy)
  then have all: "list_all (\<lambda>api. api = create_api_instance None True \<and> api_proxy_config api = None)
          (fetch_calls (fst (attempt_loop w [] vid rc dr 0)))"
    using none by (auto simp: list_all_iff)
  have some: "fetch_calls (fst (attempt_loop w [] vid rc dr 0)) \<noteq> []" if "1 \<le> rc"
    using that by (intro loop_fetches_once) simp
  have each: "k < length (fetch_calls (fst (attempt_loop w [] vid rc dr 0)))
      \<and> fetch_calls (fst (attempt_loop w [] vid rc dr 0)) ! k = create_api_instance None True"
    if "int k < rc" and "\<forall>i<k. retried w i" for k
    using loop_fetch_at[of 0 k rc w "[]" vid dr] that by (simp add: select_proxy_none)
  show ?thesis
    unfolding calls using all some each by blast
qed

theorem fetch_without_proxies_witness:
  "fst (fetch_webshare_proxies (WEBSHARE_API_KEY (example_world throttled_twice))
          (requests_get (example_world throttled_twice))) = []
   \<and> int 2 < 3
   \<and> retried (example_world throttled_twice) 0
   \<and> retried (example_world throttled_twice) 1
   \<and> list_all (\<lambda>api. api = create_api_instance None True \<and> api_proxy_config api = None)
       (fetch_calls (fst (extract_transcript (example_world throttled_twice) ''abc123'' 3 (1, 3))))
   \<and> fetch_calls (fst (extract_transcript (example_world throttled_twice) ''abc123'' 3 (1, 3)))
       \<noteq> []
   \<and> 2 < length
         (fetch_calls (fst (extract_transcript (example_world throttled_twice) ''abc123'' 3 (1, 3))))
   \<and> fetch_calls (fst (extract_transcript (example_world throttled_twice) ''abc123'' 3 (1, 3))) ! 2
       = create_api_instance None True"
proof -
  have h: "fst (fetch_webshare_proxies (WEBSHARE_API_KEY (example_world throttled_twice))
          (requests_get (example_world throttled_twice))) = []"
    by code_simp
  have r: "retried (example_world throttled_twice) 0" "retried (example_world throttled_twice) 1"
    by code_simp+
  have before: "\<forall>i<2. retried (example_world throttled_twice) i"
    using r by (simp add: less_Suc_eq numeral_2_eq_2)
  have lt: "int 2 < 3" by simp
  have less: "(1::int) \<le> 3" by simp
  note main = fetch_without_proxies [OF h, of "''abc123''" 3 "(1, 3)"]
  have all: "list_all (\<lambda>api. api = create_api_instance None True \<and> api_proxy_config api = None)
       (fetch_calls (fst (extract_transcript (example_world throttled_twice) ''abc123'' 3 (1, 3))))"
    using main by (rule conjunct1)
  have some: "1 \<le> (3::int) \<longrightarrow>
       fetch_calls (fst (extract_transcript (example_world throttled_twice) ''abc123'' 3 (1, 3))) \<noteq> []"
    using main by (rule conjunct1[OF conjunct2])
  have each: "\<forall>k. int k < 3 \<and> (\<forall>i<k. retried (example_world throttled_twice) i) \<longrightarrow>
          k < length (fetch_calls
                (fst (extract_transcript (example_world throttled_twice) ''abc123'' 3 (1, 3))))
          \<and> fetch_calls
                (fst (extract_transcript (example_world throttled_twice) ''abc123'' 3 (1, 3))) ! k
              = create_api_instance None True"
    using main by (rule conjunct2[OF conjunct2])
  have reached: "int 2 < 3 \<and> (\<forall>i<2. retried (example_world throttled_twice) i)"
    using lt before by (rule conjI)
  have third:
    "2 < length (fetch_calls
          (fst (extract_transcript (example_world throttled_twice) ''abc123'' 3 (1, 3))))
     \<and> fetch_calls
          (fst (extract_transcript (example_world throttled_twice) ''abc123'' 3 (1, 3))) ! 2
        = create_api_instance None True"
    by (rule mp[OF spec[OF each, where x = 2] reached])
  have first:
    "fetch_calls (fst (extract_transcript (example_world throttled_twice) ''abc123'' 3 (1, 3))) \<noteq> []"
    by (rule mp[OF some less])
  show ?thesis
    using h lt r all first third by (simp only: simp_thms)
qed


section \<open>The waits after a rate-limit error\<close>





section \<open>The classification of an error\<close>

text \<open>The amended classes are the branches of the \<open>except\<close> block.\<close>

lemma amended_class_signals:
  "amended_class w msg =
     (if rate_limit_signal w msg then RateLimit
      else if no_transcript_signal w msg then NoTranscript else Unknown)"
  by (simp only: amended_class_def rate_limit_signal_def no_transcript_signal_def
      matches_any_case_def)

text \<open>
  C3, as amended. An attempt whose fetch raised is handled by the class of the message,
  found by substring match in this order: the message contains \<open>IP\<close> as written, in upper
  case, or \<open>429\<close>, or, once lower-cased, \<open>blocked\<close>, and the error is of the rate-limit
  class (wait \<open>30 * 2 ^ attempt\<close> seconds and go on, or return \<open>IP_BLOCKED\<close> at the last
  attempt); else the lower-cased message contains \<open>transcript\<close> or \<open>available\<close>, and the
  error is of the no-transcript class (return \<open>NO_TRANSCRIPT\<close>); else it is of the unknown
  class (wait and go on, or return \<open>UNKNOWN\<close> at the last attempt). The lower-casing is
  that of the Python runtime, whatever it does to the message.
\<close>

theorem classification_precedence:
  assumes "int attempt < rc" and "api_fetch w attempt = Inl msg"
  shows "attempt_loop w ps vid rc dr attempt =
     (case amended_class w msg of
        RateLimit \<Rightarrow>
          if int attempt < rc - 1
          then prepend
                 (attempt_events w ps vid rc dr attempt @
                  [Stderr (RateLimitWait (2 ^ attempt * 30) (int attempt + 2) rc),
                   Sleep (Seconds (2 ^ attempt * 30))])
                 (attempt_loop w ps vid rc dr (Suc attempt))
          else (attempt_events w ps vid rc dr attempt,
                failure_result
                  (''IP blocked/rate limited after '' @ str_int rc @ '' attempts: '' @ msg)
                  ''IP_BLOCKED'')
      | NoTranscript \<Rightarrow>
          (attempt_events w ps vid rc dr attempt,
           failure_result (''No transcript available: '' @ msg) ''NO_TRANSCRIPT'')
      | Unknown \<Rightarrow>
          if int attempt < rc - 1
          then prepend
                 (attempt_events w ps vid rc dr attempt @
                  [Stderr (GeneralErrorWait (int attempt + 2) rc msg), Sleep (Uniform 2 5)])
                 (attempt_loop w ps vid rc dr (Suc attempt))
          else (attempt_events w ps vid rc dr attempt,
                failure_result (''Failed after '' @ str_int rc @ '' attempts: '' @ msg)
                  ''UNKNOWN''))"
proof -
  consider (rl_retry) "rate_limit_signal w msg" "int attempt < rc - 1"
    | (rl_last) "rate_limit_signal w msg" "\<not> int attempt < rc - 1"
    | (nt) "\<not> rate_limit_signal w msg" "no_transcript_signal w msg"
    | (un_retry) "\<not> rate_limit_signal w msg" "\<not> no_transcript_signal w msg" "int attempt < rc - 1"
    | (un_last) "\<not> rate_limit_signal w msg" "\<not> no_transcript_signal w msg" "\<not> int attempt < rc - 1"
    by blast
  then show ?thesis
  proof cases
    case rl_retry
    then show ?thesis
      by (simp add: amended_class_signals loop_rate_limit_retry[OF rl_retry(2) assms(2) rl_retry(1)])
  next
    case rl_last
    then show ?thesis
      by (simp add: amended_class_signals
          loop_rate_limit_last[OF assms(1) rl_last(2) assms(2) rl_last(1)])
  next
    case nt
    then show ?thesis
      by (simp add: amended_class_signals loop_no_transcript[OF assms nt])
  next
    case un_retry
    then show ?thesis
      by (simp add: amended_class_signals
          loop_unknown_retry[OF un_retry(3) assms(2) un_retry(1,2)])
  next
    case un_last
    then show ?thesis
      by (simp add: amended_class_signals
          loop_unknown_last[OF assms(1) un_last(3) assms(2) un_last(1,2)])
  qed
qed

theorem classification_precedence_witness:
  "int 0 < 3
   \<and> api_fetch (example_world (\<lambda>attempt. Inl ''no transcript'')) 0 = Inl ''no transcript''
   \<and> amended_class (example_world (\<lambda>attempt. Inl ''no transcript'')) ''no transcript''
       = NoTranscript
   \<and> attempt_loop (example_world (\<lambda>attempt. Inl ''no transcript'')) [] ''abc123'' 3 (1, 3) 0 =
       (attempt_events (example_world (\<lambda>attempt. Inl ''no transcript'')) [] ''abc123'' 3 (1, 3) 0,
        failure_result ''No transcript available: no transcript'' ''NO_TRANSCRIPT'')"
proof -
  have h1: "int 0 < 3" by simp
  have h2: "api_fetch (example_world (\<lambda>attempt. Inl ''no transcript'')) 0 = Inl ''no transcript''"
    by (simp add: example_world_def)
  have cls: "amended_class (example_world (\<lambda>attempt. Inl ''no transcript'')) ''no transcript''
       = NoTranscript"
    by code_simp
  show ?thesis
    using h1 h2 cls classification_precedence [OF h1 h2, of "[]" "''abc123''" "(1, 3)"]
    by simp
qed

text \<open>
  C3 as stated does not hold: \<open>IP\<close> is not matched in any case. The message
  \<open>no transcript\<close> contains \<open>ip\<close>, so the stated classification puts it in the rate-limit
  class, while the script returns \<open>NO_TRANSCRIPT\<close> after one fetch.
\<close>

theorem lower_case_ip_not_rate_limit:
  "stated_class (example_world (\<lambda>attempt. Inl ''no transcript'')) ''no transcript''
     = RateLimit
   \<and> snd (extract_transcript (example_world (\<lambda>attempt. Inl ''no transcript'')) ''abc123'' 3 (1, 3))
       = failure_result ''No transcript available: no transcript'' ''NO_TRANSCRIPT''
   \<and> length (fetch_calls
        (fst (extract_transcript (example_world (\<lambda>attempt. Inl ''no transcript'')) ''abc123'' 3 (1, 3))))
       = 1"
  by code_simp


text \<open>
  The lower-casing is the runtime's: a message that only Unicode lower-casing turns into
  one containing \<open>blocked\<close> is of the rate-limit class.
\<close>

lemma unicode_lower_is_followed:
  "amended_class kelvin_world kelvin_blocked = RateLimit"
  "length (fetch_calls (fst (extract_transcript kelvin_world ''abc123'' 3 (1, 3)))) = 3"
  "map_of (snd (extract_transcript kelvin_world ''abc123'' 3 (1, 3))) ''errorType''
     = Some (PStr ''IP_BLOCKED'')"
  by code_simp+


section \<open>An error that names the transcript\<close>

text \<open>
  C2, as amended. When the first fetch raises an error whose message contains
  \<open>transcript\<close> in any case (the lower-cased message contains it, as line 183 tests) and
  is not of the rate-limit class (it contains neither \<open>IP\<close> nor \<open>429\<close> nor, in any case,
  \<open>blocked\<close>), exactly one attempt is made and the run returns the failure result with
  error type \<open>NO_TRANSCRIPT\<close>, whatever the number of attempts left.
\<close>

theorem no_transcript_not_retried:
  assumes "1 \<le> rc"
    and "api_fetch w 0 = Inl msg"
    and "sublist ''transcript'' (str_lower w msg)"
    and "\<not> rate_limit_signal w msg"
  shows "length (fetch_calls (fst (extract_transcript w vid rc dr))) = 1
         \<and> snd (extract_transcript w vid rc dr) =
             failure_result (''No transcript available: '' @ msg) ''NO_TRANSCRIPT''"
proof -
  have lt: "int 0 < rc" using assms(1) by simp
  have nt: "no_transcript_signal w msg"
    using assms(3) by (simp only: no_transcript_signal_def simp_thms)
  show ?thesis
    by (simp add: extract_transcript_fst extract_transcript_snd
        loop_no_transcript[OF lt assms(2) assms(4) nt]
        fetch_calls_append fetch_calls_stderr fetch_calls_attempt_events)
qed

theorem no_transcript_not_retried_witness:
  "(1::int) \<le> 3
   \<and> api_fetch (example_world (\<lambda>attempt. Inl ''no transcript'')) 0 = Inl ''no transcript''
   \<and> sublist ''transcript''
         (str_lower (example_world (\<lambda>attempt. Inl ''no transcript'')) ''no transcript'')
   \<and> \<not> rate_limit_signal (example_world (\<lambda>attempt. Inl ''no transcript'')) ''no transcript''
   \<and> length (fetch_calls
        (fst (extract_transcript (example_world (\<lambda>attempt. Inl ''no transcript'')) ''abc123'' 3 (1, 3))))
       = 1
   \<and> snd (extract_transcript (example_world (\<lambda>attempt. Inl ''no transcript'')) ''abc123'' 3 (1, 3))
       = failure_result (''No transcript available: '' @ ''no transcript'') ''NO_TRANSCRIPT''"
proof -
  have h1: "(1::int) \<le> 3" by simp
  have h2: "api_fetch (example_world (\<lambda>attempt. Inl ''no transcript'')) 0 = Inl ''no transcript''"
    by (simp add: example_world_def)
  have h3: "sublist ''transcript''
         (str_lower (example_world (\<lambda>attempt. Inl ''no transcript'')) ''no transcript'')"
    by code_simp
  have h4: "\<not> rate_limit_signal (example_world (\<lambda>attempt. Inl ''no transcript''))
         ''no transcript''"
    by code_simp
  show ?thesis
    using h1 h2 h3 h4 no_transcript_not_retried [OF h1 h2 h3 h4, of "''abc123''" "(1, 3)"]
    by (simp only: simp_thms)
qed

text \<open>
  C2 as stated does not hold: the rate-limit patterns are tested first. A message that
  contains \<open>transcript\<close> and \<open>IP\<close> is retried until the attempts are used up, and the
  error type is \<open>IP_BLOCKED\<close>.
\<close>

theorem transcript_message_retried:
  "sublist ''transcript'' ''IP ban: no transcript''
   \<and> length (fetch_calls
        (fst (extract_transcript (example_world (\<lambda>attempt. Inl ''IP ban: no transcript''))
               ''abc123'' 3 (1, 3))))
       = 3
   \<and> map_of (snd (extract_transcript (example_world (\<lambda>attempt. Inl ''IP ban: no transcript''))
               ''abc123'' 3 (1, 3))) ''errorType''
       = Some (PStr ''IP_BLOCKED'')"
  by code_simp


section \<open>Failures of the proxy-list fetch\<close>

lemma subscript_without_keys:
  assumes "\<not> has_proxy_keys v"
  shows "(\<exists>e. subscript v ''proxy_address'' = Inl e) \<or> (\<exists>e. subscript v ''port'' = Inl e)
         \<or> (\<exists>e. subscript v ''username'' = Inl e) \<or> (\<exists>e. subscript v ''password'' = Inl e)"
proof (cases v)
  case (PDict kvs)
  with assms have "map_of kvs ''proxy_address'' = None \<or> map_of kvs ''port'' = None
      \<or> map_of kvs ''username'' = None \<or> map_of kvs ''password'' = None"
    by simp
  then show ?thesis unfolding PDict subscript.simps
    by (elim disjE) simp_all
qed simp_all

lemma collect_proxies_step:
  "has_proxy_keys v \<Longrightarrow>
   \<exists>p. collect_proxies (v # rest) acc = collect_proxies rest (acc @ [p])"
  by (cases v) (auto split: option.splits)

lemma collect_proxies_malformed:
  "\<not> list_all has_proxy_keys items \<Longrightarrow> \<exists>e. collect_proxies items acc = Inl e"
proof (induction items arbitrary: acc)
  case Nil
  then show ?case by simp
next
  case (Cons v items)
  show ?case
  proof (cases "has_proxy_keys v")
    case True
    then obtain p where "collect_proxies (v # items) acc = collect_proxies items (acc @ [p])"
      using collect_proxies_step by blast
    moreover have "\<not> list_all has_proxy_keys items" using Cons.prems True by simp
    ultimately show ?thesis using Cons.IH by simp
  next
    case False
    from subscript_without_keys[OF False] show ?thesis
      unfolding collect_proxies.simps
      by (elim disjE exE) (simp_all split: sum.splits)
  qed
qed

lemma fetch_without_key:
  "fetch_webshare_proxies [] get_result = ([], [NoApiKey])"
  by (simp add: fetch_webshare_proxies_def fetch_webshare_proxies_try_def)

lemma fetch_network_exception:
  "api_key \<noteq> [] \<Longrightarrow>
   fetch_webshare_proxies api_key (Inl e) = ([], [FetchingProxies (take 5 api_key), FailedToFetch e])"
  by (simp add: fetch_webshare_proxies_def fetch_webshare_proxies_try_def)

lemma fetch_bad_status:
  "api_key \<noteq> [] \<Longrightarrow> status_code response \<noteq> 200 \<Longrightarrow>
   fetch_webshare_proxies api_key (Inr response) =
     ([], [FetchingProxies (take 5 api_key),
           WebshareApiError (status_code response) (response_text response)])"
  by (simp add: fetch_webshare_proxies_def fetch_webshare_proxies_try_def)

lemma fetch_undecodable:
  "api_key \<noteq> [] \<Longrightarrow> status_code response = 200 \<Longrightarrow> response_json response = Inl e \<Longrightarrow>
   fetch_webshare_proxies api_key (Inr response) =
     ([], [FetchingProxies (take 5 api_key), FailedToFetch e])"
  by (simp add: fetch_webshare_proxies_def fetch_webshare_proxies_try_def)

text \<open>What the function does with a decoded payload, by the items it iterates over.\<close>

lemma fetch_decoded:
  assumes "api_key \<noteq> []" "status_code response = 200" "response_json response = Inr data"
  shows "fetch_webshare_proxies api_key (Inr response) =
     (case dict_get data ''results'' (PList []) of
        Inl e \<Rightarrow> ([], [FetchingProxies (take 5 api_key), FailedToFetch e])
      | Inr results \<Rightarrow>
      (case py_iter results of
        Inl e \<Rightarrow> ([], [FetchingProxies (take 5 api_key), FailedToFetch e])
      | Inr items \<Rightarrow>
      (case collect_proxies items [] of
        Inl e \<Rightarrow> ([], [FetchingProxies (take 5 api_key), FailedToFetch e])
      | Inr proxies \<Rightarrow>
          (proxies, [FetchingProxies (take 5 api_key), FetchedProxies (length proxies)]))))"
  using assms
  by (simp add: fetch_webshare_proxies_def fetch_webshare_proxies_try_def split: sum.splits)

lemma quiet_failure_simps:
  "quiet_failure ([], [l, FailedToFetch e])"
  "quiet_failure ([], [l, FetchedProxies 0])"
  by (simp_all add: quiet_failure_def)

lemma fetch_items_malformed:
  assumes "\<not> list_all has_proxy_keys items"
  shows "quiet_failure
     (case collect_proxies items [] of
        Inl e \<Rightarrow> ([], [l, FailedToFetch e])
      | Inr proxies \<Rightarrow> (proxies, [l, FetchedProxies (length proxies)]))"
proof -
  obtain e where "collect_proxies items [] = Inl e"
    using collect_proxies_malformed[OF assms] by blast
  then show ?thesis by (simp add: quiet_failure_simps)
qed

lemma fetch_items_empty:
  "quiet_failure
     (case collect_proxies [] [] of
        Inl e \<Rightarrow> ([], [l, FailedToFetch e])
      | Inr proxies \<Rightarrow> (proxies, [l, FetchedProxies (length proxies)]))"
  by (simp add: quiet_failure_simps)

lemma fetch_items_strings:
  assumes "list_all (\<lambda>v. \<exists>s. v = PStr s) items"
  shows "quiet_failure
     (case collect_proxies items [] of
        Inl e \<Rightarrow> ([], [l, FailedToFetch e])
      | Inr proxies \<Rightarrow> (proxies, [l, FetchedProxies (length proxies)]))"
proof (cases items)
  case Nil
  then show ?thesis by (simp only: fetch_items_empty)
next
  case (Cons v rest)
  with assms obtain s where "v = PStr s" by auto
  with Cons have "\<not> list_all has_proxy_keys items" by simp
  then show ?thesis by (rule fetch_items_malformed)
qed

lemma fetch_malformed:
  assumes "api_key \<noteq> []" "status_code response = 200" "response_json response = Inr data"
    and "\<not> well_formed_payload data"
  shows "quiet_failure (fetch_webshare_proxies api_key (Inr response))"
proof (cases data)
  case (PDict kvs)
  show ?thesis
  proof (cases "map_of kvs ''results''")
    case None
    then show ?thesis
      unfolding fetch_decoded[OF assms(1-3)] PDict by (simp add: quiet_failure_simps)
  next
    case (Some results)
    show ?thesis
    proof (cases results)
      case (PList items)
      with assms(4) PDict Some have "\<not> list_all has_proxy_keys items" by simp
      then show ?thesis
        unfolding fetch_decoded[OF assms(1-3)] PDict using Some PList
        by (simp add: fetch_items_malformed)
    next
      case (PDict kvs')
      have "list_all (\<lambda>v. \<exists>s. v = PStr s) (map (\<lambda>kv. PStr (fst kv)) kvs')"
        by (simp add: list_all_iff)
      then have "quiet_failure
         (case collect_proxies (map (\<lambda>kv. PStr (fst kv)) kvs') [] of
            Inl e \<Rightarrow> ([], [FetchingProxies (take 5 api_key), FailedToFetch e])
          | Inr proxies \<Rightarrow>
              (proxies, [FetchingProxies (take 5 api_key), FetchedProxies (length proxies)]))"
        by (rule fetch_items_strings)
      then show ?thesis
        unfolding fetch_decoded[OF assms(1-3)] \<open>data = PDict kvs\<close> using Some PDict
        by simp
    next
      case (PStr s)
      have "list_all (\<lambda>v. \<exists>s. v = PStr s) (map (\<lambda>c. PStr [c]) s)"
        by (simp add: list_all_iff)
      then have "quiet_failure
         (case collect_proxies (map (\<lambda>c. PStr [c]) s) [] of
            Inl e \<Rightarrow> ([], [FetchingProxies (take 5 api_key), FailedToFetch e])
          | Inr proxies \<Rightarrow>
              (proxies, [FetchingProxies (take 5 api_key), FetchedProxies (length proxies)]))"
        by (rule fetch_items_strings)
      then show ?thesis
        unfolding fetch_decoded[OF assms(1-3)] \<open>data = PDict kvs\<close> using Some PStr
        by simp
    qed (simp_all add: fetch_decoded[OF assms(1-3)] \<open>data = PDict kvs\<close> Some quiet_failure_simps)
  qed
qed (simp_all add: fetch_decoded[OF assms(1-3)] quiet_failure_simps)

text \<open>An exception that leaves the body of the \<open>try\<close> is logged and not passed on.\<close>

lemma exception_is_caught:
  "fetch_webshare_proxies_try api_key get_result = (log, Inl e) \<Longrightarrow>
   fetch_webshare_proxies api_key get_result = ([], log @ [FailedToFetch e])"
  by (simp add: fetch_webshare_proxies_def)

text \<open>
  C8. When the request raises, or answers with a status other than 200, or its body
  cannot be decoded, or the decoded payload is not an object whose \<open>results\<close> is a list of
  objects with the four keys, \<open>fetch_webshare_proxies\<close> returns the empty list and the
  last line it logs reports the failure. It returns in every case: an exception raised
  in the body of the \<open>try\<close> is the \<open>Inl\<close> of \<open>fetch_webshare_proxies_try\<close>, which
  \<open>fetch_webshare_proxies\<close> turns into the empty list.
\<close>

theorem proxy_fetch_failures_are_quiet:
  assumes "(\<exists>e. get_result = Inl e)
           \<or> (\<exists>response. get_result = Inr response
                 \<and> (status_code response \<noteq> 200
                      \<or> (\<exists>e. response_json response = Inl e)
                      \<or> (\<exists>data. response_json response = Inr data
                                  \<and> \<not> well_formed_payload data)))"
  shows "fst (fetch_webshare_proxies api_key get_result) = []
         \<and> snd (fetch_webshare_proxies api_key get_result) \<noteq> []
         \<and> reports_no_proxies (last (snd (fetch_webshare_proxies api_key get_result)))"
proof (cases "api_key = []")
  case True
  then show ?thesis by (simp add: fetch_without_key)
next
  case False
  from assms consider
      (network) e where "get_result = Inl e"
    | (status) response where "get_result = Inr response" "status_code response \<noteq> 200"
    | (decoder) response e where "get_result = Inr response" "status_code response = 200"
        "response_json response = Inl e"
    | (payload) response data where "get_result = Inr response" "status_code response = 200"
        "response_json response = Inr data" "\<not> well_formed_payload data"
    by blast
  then show ?thesis
  proof cases
    case network
    then show ?thesis by (simp add: fetch_network_exception[OF False])
  next
    case status
    then show ?thesis by (simp add: fetch_bad_status[OF False])
  next
    case decoder
    then show ?thesis by (simp add: fetch_undecodable[OF False])
  next
    case payload
    have "quiet_failure (fetch_webshare_proxies api_key (Inr response))"
      using False payload(2-4) by (rule fetch_malformed)
    then show ?thesis
      unfolding quiet_failure_def payload(1) .
  qed
qed

theorem proxy_fetch_failures_are_quiet_witness:
  "status_code (ok_response truncated_payload) = 200
   \<and> response_json (ok_response truncated_payload) = Inr truncated_payload
   \<and> \<not> well_formed_payload truncated_payload
   \<and> fst (fetch_webshare_proxies ''secretkey'' (Inr (ok_response truncated_payload))) = []
   \<and> snd (fetch_webshare_proxies ''secretkey'' (Inr (ok_response truncated_payload))) \<noteq> []
   \<and> reports_no_proxies
         (last (snd (fetch_webshare_proxies ''secretkey'' (Inr (ok_response truncated_payload)))))"
proof -
  have h2: "response_json (ok_response truncated_payload) = Inr truncated_payload"
    by (simp add: ok_response_def)
  have h1: "status_code (ok_response truncated_payload) = 200"
    by (simp add: ok_response_def)
  have h3: "\<not> well_formed_payload truncated_payload"
    by code_simp
  have hyp: "(\<exists>e. (Inr (ok_response truncated_payload) :: py_exn + string response) = Inl e)
           \<or> (\<exists>response. Inr (ok_response truncated_payload) = Inr response
                 \<and> (status_code response \<noteq> 200
                      \<or> (\<exists>e. response_json response = Inl e)
                      \<or> (\<exists>data. response_json response = Inr data
                                  \<and> \<not> well_formed_payload data)))"
    using h2 h3 by auto
  show ?thesis
    using h1 h2 h3 proxy_fetch_failures_are_quiet [OF hyp, of "''secretkey''"]
    by (simp only: simp_thms)
qed

text \<open>The three failures and the good answer, run.\<close>

lemma proxy_fetch_examples:
  "fetch_webshare_proxies ''secretkey'' (Inr (ok_response truncated_payload)) =
     ([], [FetchingProxies ''secre'', FailedToFetch (KeyError ''password'')])"
  "fetch_webshare_proxies ''secretkey''
     (Inr \<lparr>status_code = 401, response_text = ''Invalid token'',
           response_json = Inr (PDict [(''detail'', PStr ''Invalid token'')])\<rparr>
      :: py_exn + string response) =
     ([], [FetchingProxies ''secre'', WebshareApiError 401 ''Invalid token''])"
  "fetch_webshare_proxies ''secretkey'' (Inl (Raised ''Connection refused'')
      :: py_exn + string response) =
     ([], [FetchingProxies ''secre'', FailedToFetch (Raised ''Connection refused'')])"
  "fetch_webshare_proxies ''secretkey'' (Inr (ok_response one_proxy_payload)) =
     ([\<lparr>proxy_address = PStr ''p.webshare.io'', port = PInt 80,
        username = PStr ''user'', password = PStr ''pass''\<rparr>],
      [FetchingProxies ''secre'', FetchedProxies 1])"
  by code_simp+

text \<open>A run through the proxy of the good answer.\<close>

lemma run_with_proxy:
  "map_of (snd (extract_transcript
            ((example_world (\<lambda>attempt. Inr hello_world))
               \<lparr>WEBSHARE_API_KEY := ''secretkey'',
                requests_get := Inr (ok_response one_proxy_payload)\<rparr>)
            ''abc123'' 3 (1, 3))) ''proxy_used''
     = Some (PStr ''p.webshare.io:80'')"
  by code_simp

end
